theory Spec2Isabelle
  imports Main "HOL-Library.Word"
begin

section \<open>TensorDataContainer: the nested-literal tensor builder\<close>

text \<open>
  A shallow embedding of \<^verbatim>\<open>torch/csrc/api/src/detail/TensorDataContainer.cpp\<close>.
  The class is a tagged value: a tag \<open>m_type\<close>, the inferred \<open>m_sizes\<close> and
  \<open>m_scalar_type\<close>, and one payload field per variant. Every \<^verbatim>\<open>TORCH_CHECK\<close> and
  \<^verbatim>\<open>TORCH_INTERNAL_ASSERT\<close> of the source is a branch returning an error value.
\<close>

subsection \<open>Element kinds and scalars\<close>

text \<open>
  Modelled from the spec: the enumeration \<^verbatim>\<open>at::ScalarType\<close>, declared outside the source
  file. Section 6 of the spec gives the closed set of supported kinds (bool, int8, uint8,
  int16, int32, int64, half, bfloat16, float32, float64), named here as the source names
  them (\<^verbatim>\<open>at::kBool\<close>, \<^verbatim>\<open>at::kHalf\<close>, \<^verbatim>\<open>at::kBFloat16\<close>, ...); \<open>Undefined\<close> is the
  kind of the default-constructed container.
\<close>

datatype ScalarType =
  kByte | kChar | kShort | kInt | kLong | kHalf | kFloat | kDouble | kBool | kBFloat16
  | Undefined

text \<open>
  Modelled from the spec: \<^verbatim>\<open>c10::Scalar\<close>, whose declaration is not part of the
  source file. The spec's data model says a scalar ``carries one numeric value and its
  element kind'' and is owned by value. A value of C++ type \<open>T\<close> is kept as it was
  passed to the constructor: integers as words of their width, floating kinds as the bit
  pattern of the value (the container never computes with them).
\<close>

datatype Scalar =
  Scalar_uint8 "8 word"
  | Scalar_int8 "8 word"
  | Scalar_int16 "16 word"
  | Scalar_int "32 word"
  | Scalar_int64 "64 word"
  | Scalar_Half "16 word"
  | Scalar_float "32 word"
  | Scalar_double "64 word"
  | Scalar_bool bool
  | Scalar_BFloat16 "16 word"

text \<open>
  Modelled from the spec: the table of pairs \<open>(T, S)\<close> that the macro
  \<^verbatim>\<open>AT_FORALL_SCALAR_TYPES_AND3(Bool, Half, BFloat16, TENSOR)\<close> instantiates (section 6 of
  the spec lists the closed set of kinds): the kind \<^verbatim>\<open>at::k##S\<close> of a value of type \<open>T\<close>.
\<close>

fun kind_of :: "Scalar \<Rightarrow> ScalarType" where
  "kind_of (Scalar_uint8 _) = kByte"
| "kind_of (Scalar_int8 _) = kChar"
| "kind_of (Scalar_int16 _) = kShort"
| "kind_of (Scalar_int _) = kInt"
| "kind_of (Scalar_int64 _) = kLong"
| "kind_of (Scalar_Half _) = kHalf"
| "kind_of (Scalar_float _) = kFloat"
| "kind_of (Scalar_double _) = kDouble"
| "kind_of (Scalar_bool _) = kBool"
| "kind_of (Scalar_BFloat16 _) = kBFloat16"

text \<open>The value of a default-constructed \<^verbatim>\<open>c10::Scalar\<close>: the 64-bit integer zero.\<close>

definition Scalar_default :: Scalar where
  "Scalar_default = Scalar_int64 0"

subsection \<open>Backend tensors\<close>

text \<open>
  Modelled from the spec: a device identifier (section 6): the staging device
  \<^verbatim>\<open>at::kCPU\<close>, or a remote device with its index.
\<close>

datatype Device = CPU | CUDA nat

text \<open>
  Modelled from the spec: \<^verbatim>\<open>at::TensorOptions\<close> (section 6, ``Configuration''): the
  target device, the target element kind (optional) and the \<open>is_variable\<close> flag the
  source sets.
\<close>

record TensorOptions =
  opt_device :: Device
  opt_dtype :: "ScalarType option"
  opt_is_variable :: bool

text \<open>
  Modelled from the spec: a defined \<^verbatim>\<open>at::Tensor\<close> of the opaque backend (section 6). A
  dense tensor has its sizes, its element kind (\<open>None\<close> when the options that made it
  named none, which leaves the choice to the backend), its device and its cells in
  row-major order. A cell is \<open>None\<close> while uninitialised and otherwise holds the scalar
  that was written to it; the backend's conversion of that scalar to the tensor's element
  kind is not modelled. The \<open>m_tensor\<close> field of a container may hold an undefined tensor, which
  is \<open>None\<close> of type \<open>Tensor option\<close>.
\<close>

record Tensor =
  t_sizes :: "nat list"
  t_dtype :: "ScalarType option"
  t_device :: Device
  t_data :: "Scalar option list"

subsection \<open>The container\<close>

datatype TensorDataContainerType = Scalar | InitList | Tensor

text \<open>
  The class \<^verbatim>\<open>TensorDataContainer\<close> with its six data members; the member
  \<^verbatim>\<open>sizes_\<close> is the selector \<open>m_sizes\<close>, and so on for the others. The sizes are
  \<^verbatim>\<open>int64_t\<close> in the source; every size the file stores is the length of a sequence held
  in memory, far below \<open>2^63\<close>, so they are natural numbers here.
\<close>

datatype TensorDataContainer =
  TensorDataContainer
    (m_sizes: "nat list")
    (m_scalar_type: ScalarType)
    (m_type: TensorDataContainerType)
    (m_scalar: Scalar)
    (m_init_list: "TensorDataContainer list")
    (m_tensor: "Tensor option")

datatype accessor = Acc_scalar | Acc_init_list | Acc_tensor

datatype assert_site =
  Fill_expected_0dim nat
  | Fill_first_dim nat nat
  | Fill_on_tensor
  | Invalid_type

text \<open>
  The failures of the source. \<open>ShapeMismatch\<close> and \<open>KindMismatch\<close> are the two
  \<^verbatim>\<open>TORCH_CHECK\<close>s of the brace-list constructor, with the values their messages name
  (expected first); \<open>Misuse\<close> is the \<^verbatim>\<open>TORCH_CHECK\<close> of an accessor;
  \<open>InternalInvariant\<close> is a \<^verbatim>\<open>TORCH_INTERNAL_ASSERT\<close>; \<open>NotImplementedFor\<close> is the
  default case of the \<^verbatim>\<open>AT_DISPATCH_ALL_TYPES_AND2\<close> switch. \<open>InvalidRead\<close> stands for a
  read the C++ leaves undefined (the first element of an empty sequence, the first size
  of a 0-dim tensor, an undefined tensor); \<open>BackendError\<close> is an error raised inside a
  backend primitive.
\<close>

datatype error =
  ShapeMismatch "nat list" "nat list"
  | KindMismatch ScalarType ScalarType
  | Misuse accessor
  | InternalInvariant assert_site
  | NotImplementedFor ScalarType
  | InvalidRead
  | BackendError

subsection \<open>Constructors\<close>

text \<open>
  The constructors of the class are overloads of one name; here each has a name of its
  own, the one the spec gives it. A member that a constructor does not initialise holds
  the value of its default constructor: the zero scalar, the empty list, the undefined
  tensor.

  The default constructor (lines 10--13).
\<close>

definition TensorDataContainer_default :: TensorDataContainer where
  "TensorDataContainer_default =
     TensorDataContainer [0] Undefined InitList Scalar_default [] None"

text \<open>
  The constructor from a value of type \<open>T\<close>, instantiated by the macro \<^verbatim>\<open>TENSOR(T, S)\<close>
  for each pair of the table (lines 15--22).
\<close>

definition from_scalar :: "Scalar \<Rightarrow> TensorDataContainer" where
  "from_scalar v = TensorDataContainer [] (kind_of v) Scalar v [] None"

text \<open>The accessors \<^verbatim>\<open>sizes()\<close> and \<^verbatim>\<open>scalar_type()\<close>, available on every variant.\<close>

definition sizes :: "TensorDataContainer \<Rightarrow> nat list" where
  "sizes c = m_sizes c"

definition scalar_type :: "TensorDataContainer \<Rightarrow> ScalarType" where
  "scalar_type c = m_scalar_type c"

text \<open>
  The loop of the brace-list constructor: for each element, first the check of the
  sizes, then the check of the scalar type; the first failing check throws.
\<close>

fun check_elems :: "TensorDataContainer \<Rightarrow> TensorDataContainer list \<Rightarrow> error option" where
  "check_elems first_elem [] = None"
| "check_elems first_elem (elem # rest) =
     (if sizes elem \<noteq> sizes first_elem
      then Some (ShapeMismatch (sizes first_elem) (sizes elem))
      else if scalar_type elem \<noteq> scalar_type first_elem
      then Some (KindMismatch (scalar_type first_elem) (scalar_type elem))
      else check_elems first_elem rest)"

text \<open>
  The constructor from \<^verbatim>\<open>std::initializer_list<TensorDataContainer>\<close>. Its member
  initialiser reads \<^verbatim>\<open>init_list.begin()->scalar_type()\<close> before anything else, which
  for an empty list reads past the end.
\<close>

definition from_brace_list :: "TensorDataContainer list \<Rightarrow> error + TensorDataContainer" where
  "from_brace_list init_list =
     (case init_list of
        [] \<Rightarrow> Inl InvalidRead
      | first_elem # _ \<Rightarrow>
          (case check_elems first_elem init_list of
             Some e \<Rightarrow> Inl e
           | None \<Rightarrow>
               Inr (TensorDataContainer
                      (length init_list # sizes first_elem)
                      (scalar_type first_elem)
                      InitList Scalar_default init_list None)))"

subsection \<open>Variant predicates and accessors\<close>

text \<open>
  Each accessor is guarded by a \<^verbatim>\<open>TORCH_CHECK\<close> of its variant predicate. They are
  \<^verbatim>\<open>const\<close> member functions: functions of the container.
\<close>

definition is_scalar :: "TensorDataContainer \<Rightarrow> bool" where
  "is_scalar c = (m_type c = Scalar)"

definition is_init_list :: "TensorDataContainer \<Rightarrow> bool" where
  "is_init_list c = (m_type c = InitList)"

definition is_tensor :: "TensorDataContainer \<Rightarrow> bool" where
  "is_tensor c = (m_type c = Tensor)"

definition scalar :: "TensorDataContainer \<Rightarrow> error + Scalar" where
  "scalar c = (if is_scalar c then Inr (m_scalar c) else Inl (Misuse Acc_scalar))"

definition init_list :: "TensorDataContainer \<Rightarrow> error + TensorDataContainer list" where
  "init_list c = (if is_init_list c then Inr (m_init_list c) else Inl (Misuse Acc_init_list))"

definition tensor :: "TensorDataContainer \<Rightarrow> error + Tensor option" where
  "tensor c = (if is_tensor c then Inr (m_tensor c) else Inl (Misuse Acc_tensor))"

subsection \<open>The backend, with a record of its calls\<close>

text \<open>
  Modelled from the spec: the backend interface of section 6, as a spying backend (the
  spec's properties P6 and P7 are stated against one). The state is the two thread-local
  modes the source's guards set, and the list of backend calls made so far, each with
  the device of the tensor it made or worked on and the two modes at the time of the call.
\<close>

datatype backend_call =
  Call_tensor
  | Call_scalar_tensor
  | Call_empty
  | Call_select nat
  | Call_fill
  | Call_to Device

record event =
  ev_call :: backend_call
  ev_device :: Device
  ev_non_variable :: bool
  ev_grad :: bool

record backend_state =
  non_variable_type_mode :: bool
  grad_mode :: bool
  calls :: "event list"

definition record_call :: "backend_call \<Rightarrow> Device \<Rightarrow> backend_state \<Rightarrow> backend_state" where
  "record_call k d s =
     s\<lparr>calls := calls s @
        [\<lparr>ev_call = k, ev_device = d,
          ev_non_variable = non_variable_type_mode s, ev_grad = grad_mode s\<rparr>]\<rparr>"

text \<open>
  Modelled from the spec: \<open>make_flat_tensor(values, opts)\<close> of section 6, in the source
  \<^verbatim>\<open>at::native::tensor(values, options)\<close>: a 1-D dense tensor holding the values.
\<close>

definition at_native_tensor ::
  "Scalar list \<Rightarrow> TensorOptions \<Rightarrow> backend_state \<Rightarrow> Tensor \<times> backend_state" where
  "at_native_tensor values options s =
     (\<lparr>t_sizes = [length values], t_dtype = opt_dtype options,
       t_device = opt_device options, t_data = map Some values\<rparr>,
      record_call Call_tensor (opt_device options) s)"

text \<open>
  Modelled from the spec: \<open>make_scalar_tensor(scalar, opts)\<close> of section 6, in the source
  \<^verbatim>\<open>at::scalar_tensor(scalar, options)\<close>: a 0-rank tensor holding the scalar.
\<close>

definition at_scalar_tensor ::
  "Scalar \<Rightarrow> TensorOptions \<Rightarrow> backend_state \<Rightarrow> Tensor \<times> backend_state" where
  "at_scalar_tensor v options s =
     (\<lparr>t_sizes = [], t_dtype = opt_dtype options,
       t_device = opt_device options, t_data = [Some v]\<rparr>,
      record_call Call_scalar_tensor (opt_device options) s)"

text \<open>
  Modelled from the spec: \<open>empty(shape, opts)\<close> of section 6, in the source
  \<^verbatim>\<open>at::empty(sizes, options)\<close>: an uninitialised dense tensor of the given shape.
\<close>

definition at_empty ::
  "nat list \<Rightarrow> TensorOptions \<Rightarrow> backend_state \<Rightarrow> Tensor \<times> backend_state" where
  "at_empty szs options s =
     (\<lparr>t_sizes = szs, t_dtype = opt_dtype options,
       t_device = opt_device options, t_data = replicate (prod_list szs) None\<rparr>,
      record_call Call_empty (opt_device options) s)"

text \<open>
  Modelled from the spec: \<open>index(tensor, i)\<close> of section 6, in the source
  \<^verbatim>\<open>tensor[index]\<close>: the sub-tensor along axis 0. The backend rejects a 0-dim tensor
  and an index out of range. \<open>select\<close> is the value of the call and \<open>tensor_select\<close>
  the call as the record of calls sees it.
\<close>

definition select :: "Tensor \<Rightarrow> nat \<Rightarrow> error + Tensor" where
  "select t index =
     (case t_sizes t of
        [] \<Rightarrow> Inl BackendError
      | n # rest \<Rightarrow>
          if index < n
          then Inr (t\<lparr>t_sizes := rest,
                      t_data := take (prod_list rest) (drop (index * prod_list rest) (t_data t))\<rparr>)
          else Inl BackendError)"

definition tensor_select ::
  "Tensor \<Rightarrow> nat \<Rightarrow> backend_state \<Rightarrow> (error + Tensor) \<times> backend_state" where
  "tensor_select t index s = (select t index, record_call (Call_select index) (t_device t) s)"

text \<open>
  Modelled from the spec: the sub-tensor of \<open>index\<close> ``must be a mutable alias, not a
  copy'' (section 6): a write through \<^verbatim>\<open>tensor[index]\<close> is a write to the cells of
  \<open>tensor\<close>. Tensors are values here, so the filled sub-tensor is written back to its
  place in the parent.
\<close>

definition tensor_put :: "Tensor \<Rightarrow> nat \<Rightarrow> Tensor \<Rightarrow> Tensor" where
  "tensor_put t index sub =
     (let k = prod_list (tl (t_sizes t)) in
      t\<lparr>t_data := take (index * k) (t_data t) @ t_data sub @ drop (Suc index * k) (t_data t)\<rparr>)"

text \<open>
  Modelled from the spec: \<open>fill_inplace(tensor, scalar)\<close> of section 6, in the source
  \<^verbatim>\<open>tensor.fill_(scalar)\<close>: the scalar is written to every cell.
\<close>

definition tensor_fill ::
  "Tensor \<Rightarrow> Scalar \<Rightarrow> backend_state \<Rightarrow> Tensor \<times> backend_state" where
  "tensor_fill t v s =
     (t\<lparr>t_data := replicate (length (t_data t)) (Some v)\<rparr>,
      record_call Call_fill (t_device t) s)"

text \<open>
  Modelled from the spec: \<open>transfer(tensor, device)\<close> of section 6, in the source
  \<^verbatim>\<open>tensor.to(...)\<close>: the tensor on the target device, with the target element kind
  when one is given. The source calls it with a device alone
  (\<^verbatim>\<open>tensor.to(options.device())\<close>) and with the options (\<^verbatim>\<open>tensor_.to(options)\<close>).
\<close>

definition tensor_to ::
  "Tensor \<Rightarrow> Device \<Rightarrow> ScalarType option \<Rightarrow> backend_state \<Rightarrow> Tensor \<times> backend_state" where
  "tensor_to t dev dt s =
     (t\<lparr>t_device := dev, t_dtype := (case dt of None \<Rightarrow> t_dtype t | Some k \<Rightarrow> Some k)\<rparr>,
      record_call (Call_to dev) (t_device t) s)"

text \<open>
  Modelled from the spec: \<^verbatim>\<open>tensor.item<T>()\<close> of the backend, which the printer uses: the
  value of a tensor of exactly one cell.
\<close>

definition item :: "Tensor \<Rightarrow> error + Scalar" where
  "item t =
     (case t_data t of
        [Some v] \<Rightarrow> Inr v
      | [None] \<Rightarrow> Inl InvalidRead
      | _ \<Rightarrow> Inl BackendError)"

text \<open>
  Modelled from the spec: \<open>scoped_no_grad()\<close> of section 6, ``scoped acquisition of
  non-tracking mode with guaranteed release''; the source has two such guards,
  \<^verbatim>\<open>at::AutoNonVariableTypeMode\<close> and \<^verbatim>\<open>at::NoGradGuard\<close>, each for a mode of its own.
  A guard sets its mode on entry and puts the previous value back when the scope is left,
  by return or by exception: the body's result, error or not, passes through.
\<close>

definition AutoNonVariableTypeMode ::
  "(backend_state \<Rightarrow> 'a \<times> backend_state) \<Rightarrow> backend_state \<Rightarrow> 'a \<times> backend_state" where
  "AutoNonVariableTypeMode body s =
     (case body (s\<lparr>non_variable_type_mode := True\<rparr>) of
        (r, s') \<Rightarrow> (r, s'\<lparr>non_variable_type_mode := non_variable_type_mode s\<rparr>))"

definition NoGradGuard ::
  "(backend_state \<Rightarrow> 'a \<times> backend_state) \<Rightarrow> backend_state \<Rightarrow> 'a \<times> backend_state" where
  "NoGradGuard body s =
     (case body (s\<lparr>grad_mode := False\<rparr>) of
        (r, s') \<Rightarrow> (r, s'\<lparr>grad_mode := grad_mode s\<rparr>))"

subsection \<open>The constructor from a flat sequence\<close>

text \<open>
  The constructor from \<^verbatim>\<open>at::ArrayRef<T>\<close>, instantiated by the macro for each pair
  \<open>(T, S)\<close>: \<open>S\<close> is the first argument, and the values are those of the array.
  The options are \<^verbatim>\<open>at::TensorOptions().device(at::kCPU).is_variable(false)\<close>.
\<close>

definition from_flat ::
  "ScalarType \<Rightarrow> Scalar list \<Rightarrow> backend_state \<Rightarrow> TensorDataContainer \<times> backend_state" where
  "from_flat S values s =
     AutoNonVariableTypeMode
       (\<lambda>s. case at_native_tensor values
                   \<lparr>opt_device = CPU, opt_dtype = None, opt_is_variable = False\<rparr> s of
               (t, s') \<Rightarrow>
                 (TensorDataContainer [length values] S Tensor Scalar_default [] (Some t), s'))
       s"

text \<open>
  The constructor from \<^verbatim>\<open>std::vector<T>\<close> passes its values on as an
  \<^verbatim>\<open>at::ArrayRef<T>\<close>.
\<close>

definition from_vector ::
  "ScalarType \<Rightarrow> Scalar list \<Rightarrow> backend_state \<Rightarrow> TensorDataContainer \<times> backend_state" where
  "from_vector S values s = from_flat S values s"

subsection \<open>Materialisation\<close>

text \<open>
  \<^verbatim>\<open>fill_tensor\<close> and its loop over the elements of the list, with the running index.
  The tests \<^verbatim>\<open>is_scalar()\<close>, \<^verbatim>\<open>is_init_list()\<close> and \<^verbatim>\<open>is_tensor()\<close> compare the tag
  \<open>ty\<close>. The tensor is passed by value and written in place in the source; here the
  filled tensor is returned.
\<close>

fun fill_tensor ::
    "TensorDataContainer \<Rightarrow> Tensor \<Rightarrow> backend_state \<Rightarrow> (error + Tensor) \<times> backend_state"
  and fill_elems ::
    "TensorDataContainer list \<Rightarrow> nat \<Rightarrow> Tensor \<Rightarrow> backend_state
       \<Rightarrow> (error + Tensor) \<times> backend_state"
where
  "fill_tensor (TensorDataContainer sz st ty sc il tn) tens s =
     (if ty = Scalar then
        (if length (t_sizes tens) \<noteq> 0
         then (Inl (InternalInvariant (Fill_expected_0dim (length (t_sizes tens)))), s)
         else NoGradGuard
                (\<lambda>s. case tensor_fill tens sc s of (t, s') \<Rightarrow> (Inr t, s')) s)
      else if ty = InitList then
        (case t_sizes tens of
           [] \<Rightarrow> (Inl InvalidRead, s)
         | n # _ \<Rightarrow>
             if n \<noteq> length il
             then (Inl (InternalInvariant (Fill_first_dim (length il) n)), s)
             else fill_elems il 0 tens s)
      else if ty = Tensor then (Inl (InternalInvariant Fill_on_tensor), s)
      else (Inl (InternalInvariant Invalid_type), s))"
| "fill_elems [] index tens s = (Inr tens, s)"
| "fill_elems (elem # rest) index tens s =
     (case tensor_select tens index s of
        (Inl e, s1) \<Rightarrow> (Inl e, s1)
      | (Inr sub, s1) \<Rightarrow>
          (case fill_tensor elem sub s1 of
             (Inl e, s2) \<Rightarrow> (Inl e, s2)
           | (Inr sub', s2) \<Rightarrow>
               fill_elems rest (Suc index) (tensor_put tens index sub') s2))"

definition convert_to_tensor ::
  "TensorDataContainer \<Rightarrow> TensorOptions \<Rightarrow> backend_state
     \<Rightarrow> (error + Tensor) \<times> backend_state" where
  "convert_to_tensor c options s =
     (if is_scalar c then
        AutoNonVariableTypeMode
          (\<lambda>s. case at_scalar_tensor (m_scalar c) (options\<lparr>opt_is_variable := False\<rparr>) s of
                  (t, s') \<Rightarrow> (Inr t, s'))
          s
      else if is_init_list c then
        (case AutoNonVariableTypeMode
                (at_empty (m_sizes c) (options\<lparr>opt_device := CPU, opt_is_variable := False\<rparr>))
                s of
           (tens, s1) \<Rightarrow>
             (case fill_tensor c tens s1 of
                (Inl e, s2) \<Rightarrow> (Inl e, s2)
              | (Inr filled, s2) \<Rightarrow>
                  (case tensor_to filled (opt_device options) None s2 of
                     (t, s3) \<Rightarrow> (Inr t, s3))))
      else if is_tensor c then
        (case m_tensor c of
           None \<Rightarrow> (Inl BackendError, s)
         | Some t \<Rightarrow>
             (case tensor_to t (opt_device options) (opt_dtype options) s of
                (r, s') \<Rightarrow> (Inr r, s')))
      else (Inl (InternalInvariant Invalid_type), s))"

subsection \<open>Pretty-printing\<close>

text \<open>
  Modelled from the spec: the kinds the switch of \<^verbatim>\<open>AT_DISPATCH_ALL_TYPES_AND2(at::kBool,
  at::kHalf, ...)\<close> covers, a macro that is not part of the source file: the integral and
  floating kinds, with the two added ones. Any other kind throws.
\<close>

definition dispatch_all_types_and2 :: "ScalarType \<Rightarrow> bool" where
  "dispatch_all_types_and2 st =
     (st \<in> {kByte, kChar, kDouble, kFloat, kInt, kLong, kShort, kBool, kHalf})"

text \<open>
  The printer writes to a \<^verbatim>\<open>std::ostream\<close>; here it returns the text it appends, or the
  error it throws. The parameter \<open>fmt\<close> stands for the stream insertion of a number:
  \<open>fmt st v\<close> is the text of \<open>v\<close> converted to the C++ type of kind \<open>st\<close> (for
  \<open>kBFloat16\<close>, widened to \<^verbatim>\<open>float\<close>). The printer reads the cells of a flat tensor with
  \<open>select\<close> and \<open>item\<close>.
\<close>

definition print_scalar ::
  "(ScalarType \<Rightarrow> Scalar \<Rightarrow> string) \<Rightarrow> ScalarType \<Rightarrow> Scalar \<Rightarrow> error + string" where
  "print_scalar fmt st v =
     (if st = kBFloat16 then Inr (fmt kBFloat16 v)
      else if dispatch_all_types_and2 st then Inr (fmt st v)
      else Inl (NotImplementedFor st))"

definition read_item :: "Tensor \<Rightarrow> nat \<Rightarrow> error + Scalar" where
  "read_item t i = (case select t i of Inl e \<Rightarrow> Inl e | Inr cell \<Rightarrow> item cell)"

definition print_tensor_item ::
  "(ScalarType \<Rightarrow> Scalar \<Rightarrow> string) \<Rightarrow> ScalarType \<Rightarrow> Tensor \<Rightarrow> nat \<Rightarrow> error + string" where
  "print_tensor_item fmt st t i =
     (if st = kBFloat16 then
        (case read_item t i of Inl e \<Rightarrow> Inl e | Inr v \<Rightarrow> Inr (fmt kBFloat16 v))
      else if dispatch_all_types_and2 st then
        (case read_item t i of Inl e \<Rightarrow> Inl e | Inr v \<Rightarrow> Inr (fmt st v))
      else Inl (NotImplementedFor st))"

text \<open>The loop over the indices \<open>0, ..., tensor_.sizes()[0] - 1\<close> of a flat tensor.\<close>

fun print_tensor_items ::
  "(ScalarType \<Rightarrow> Scalar \<Rightarrow> string) \<Rightarrow> ScalarType \<Rightarrow> Tensor \<Rightarrow> nat list \<Rightarrow> error + string"
where
  "print_tensor_items fmt st t [] = Inr []"
| "print_tensor_items fmt st t (i # rest) =
     (case print_tensor_item fmt st t i of
        Inl e \<Rightarrow> Inl e
      | Inr out \<Rightarrow>
          (case print_tensor_items fmt st t rest of
             Inl e \<Rightarrow> Inl e
           | Inr later \<Rightarrow> Inr (out @ later)))"

text \<open>
  \<^verbatim>\<open>pretty_print_recursive\<close>, which \<^verbatim>\<open>operator<<\<close> calls, and its loop over the
  elements of a brace list: after each element but the last, a comma and a space.
\<close>

fun pretty_print_recursive ::
    "(ScalarType \<Rightarrow> Scalar \<Rightarrow> string) \<Rightarrow> TensorDataContainer \<Rightarrow> error + string"
  and print_elems ::
    "(ScalarType \<Rightarrow> Scalar \<Rightarrow> string) \<Rightarrow> TensorDataContainer list \<Rightarrow> error + string"
where
  "pretty_print_recursive fmt (TensorDataContainer sz st ty sc il tn) =
     (if ty = Scalar then print_scalar fmt st sc
      else if ty = InitList then
        (case print_elems fmt il of
           Inl e \<Rightarrow> Inl e
         | Inr body \<Rightarrow> Inr (''{'' @ body @ ''}''))
      else if ty = Tensor then
        (case tn of
           None \<Rightarrow> Inl BackendError
         | Some t \<Rightarrow>
             (case t_sizes t of
                [] \<Rightarrow> Inl InvalidRead
              | n # _ \<Rightarrow>
                  (case print_tensor_items fmt st t [0..<n] of
                     Inl e \<Rightarrow> Inl e
                   | Inr body \<Rightarrow> Inr (''{'' @ body @ ''}''))))
      else Inl (InternalInvariant Invalid_type))"
| "print_elems fmt [] = Inr []"
| "print_elems fmt (it # rest) =
     (case pretty_print_recursive fmt it of
        Inl e \<Rightarrow> Inl e
      | Inr out \<Rightarrow>
          (case print_elems fmt rest of
             Inl e \<Rightarrow> Inl e
           | Inr later \<Rightarrow> Inr (out @ (if rest \<noteq> [] then '', '' else []) @ later)))"

subsection \<open>Well-formed containers\<close>

text \<open>
  The shape attribute of the spec's data model (section 3) together with invariant I1:
  a scalar has the empty shape; a brace list has the shape \<open>[n, *child_shape]\<close>, every
  child having that child shape and being well formed itself; a flat tensor holds a
  tensor of the container's shape.
\<close>

fun rectangular :: "TensorDataContainer \<Rightarrow> bool" where
  "rectangular (TensorDataContainer sz st ty sc il tn) =
     (case ty of
        Scalar \<Rightarrow> sz = []
      | InitList \<Rightarrow>
          sz \<noteq> [] \<and> hd sz = length il
          \<and> (\<forall>e \<in> set il. rectangular e \<and> sizes e = tl sz)
      | Tensor \<Rightarrow> (case tn of None \<Rightarrow> False | Some t \<Rightarrow> t_sizes t = sz))"

text \<open>
  A container that \<^verbatim>\<open>fill_tensor\<close> can write: a scalar, or a brace list of such
  containers.
\<close>

fun fillable :: "TensorDataContainer \<Rightarrow> bool" where
  "fillable (TensorDataContainer sz st ty sc il tn) =
     (case ty of
        Scalar \<Rightarrow> True
      | InitList \<Rightarrow> (\<forall>e \<in> set il. fillable e)
      | Tensor \<Rightarrow> False)"

text \<open>Kinds of backend calls in the record.\<close>

definition is_to :: "event \<Rightarrow> bool" where
  "is_to e = (case ev_call e of Call_to _ \<Rightarrow> True | _ \<Rightarrow> False)"

definition is_fill :: "event \<Rightarrow> bool" where
  "is_fill e = (ev_call e = Call_fill)"

definition is_factory :: "event \<Rightarrow> bool" where
  "is_factory e = (ev_call e \<in> {Call_tensor, Call_scalar_tensor, Call_empty})"

text \<open>
  The calls \<^verbatim>\<open>fill_tensor\<close> makes on a tensor of device \<open>d\<close>: an indexing, or an
  in-place fill with gradient recording switched off.
\<close>

definition fill_event :: "Device \<Rightarrow> event \<Rightarrow> bool" where
  "fill_event d e =
     (ev_device e = d \<and>
      (case ev_call e of
         Call_fill \<Rightarrow> \<not> ev_grad e
       | Call_select _ \<Rightarrow> True
       | _ \<Rightarrow> False))"

text \<open>
  The rendering the spec gives for a brace list (section 4.4), between the braces: the
  children's renderings, separated by a comma and a space.
\<close>

fun comma_separated :: "string list \<Rightarrow> string" where
  "comma_separated [] = []"
| "comma_separated [out] = out"
| "comma_separated (out # next_out # outs) = out @ '', '' @ comma_separated (next_out # outs)"

section \<open>Supporting lemmas\<close>

subsection \<open>The checks of the brace-list constructor\<close>

lemma check_elems_None_iff:
  "check_elems f xs = None \<longleftrightarrow> (\<forall>c \<in> set xs. sizes c = sizes f \<and> scalar_type c = scalar_type f)"
  by (induction xs) auto

lemma check_elems_first_offender:
  assumes "\<forall>p \<in> set pre. sizes p = sizes f \<and> scalar_type p = scalar_type f"
    and "\<not> (sizes c = sizes f \<and> scalar_type c = scalar_type f)"
  shows "check_elems f (pre @ c # post) =
           Some (if sizes c \<noteq> sizes f then ShapeMismatch (sizes f) (sizes c)
                 else KindMismatch (scalar_type f) (scalar_type c))"
  using assms by (induction pre) auto

lemma from_brace_list_Cons:
  "from_brace_list (f # rest) =
     (case check_elems f (f # rest) of
        Some e \<Rightarrow> Inl e
      | None \<Rightarrow> Inr (TensorDataContainer (length (f # rest) # sizes f) (scalar_type f)
                       InitList Scalar_default (f # rest) None))"
  by (simp only: from_brace_list_def list.case)

subsection \<open>Backend primitives under the guards\<close>

lemma record_call_eq:
  "record_call k d s =
     s\<lparr>calls := calls s @
        [\<lparr>ev_call = k, ev_device = d,
          ev_non_variable = non_variable_type_mode s, ev_grad = grad_mode s\<rparr>]\<rparr>"
  by (simp add: record_call_def)

lemma NoGradGuard_fill:
  "NoGradGuard (\<lambda>s. case tensor_fill tens sc s of (t, s') \<Rightarrow> (Inr t, s')) s =
     (Inr (tens\<lparr>t_data := replicate (length (t_data tens)) (Some sc)\<rparr>),
      s\<lparr>calls := calls s @
          [\<lparr>ev_call = Call_fill, ev_device = t_device tens,
            ev_non_variable = non_variable_type_mode s, ev_grad = False\<rparr>]\<rparr>)"
  by (simp add: NoGradGuard_def tensor_fill_def record_call_def)

lemma tensor_select_eq:
  "tensor_select tens i s =
     (select tens i,
      s\<lparr>calls := calls s @
          [\<lparr>ev_call = Call_select i, ev_device = t_device tens,
            ev_non_variable = non_variable_type_mode s, ev_grad = grad_mode s\<rparr>]\<rparr>)"
  by (simp add: tensor_select_def record_call_def)

lemma select_Inr:
  "select tens i = Inr sub \<Longrightarrow>
     t_sizes tens \<noteq> [] \<and> i < hd (t_sizes tens) \<and> t_sizes sub = tl (t_sizes tens)
     \<and> t_device sub = t_device tens"
  by (auto simp: select_def split: list.splits if_splits)

lemma select_ok:
  "t_sizes tens \<noteq> [] \<Longrightarrow> i < hd (t_sizes tens) \<Longrightarrow> \<exists>sub. select tens i = Inr sub"
  by (auto simp: select_def split: list.splits)

lemma tensor_put_sizes [simp]:
  "t_sizes (tensor_put tens i sub) = t_sizes tens"
  "t_device (tensor_put tens i sub) = t_device tens"
  by (simp_all add: tensor_put_def Let_def)

lemma empty_guarded:
  "AutoNonVariableTypeMode (at_empty szs opts) s =
     (\<lparr>t_sizes = szs, t_dtype = opt_dtype opts, t_device = opt_device opts,
       t_data = replicate (prod_list szs) None\<rparr>,
      s\<lparr>calls := calls s @
          [\<lparr>ev_call = Call_empty, ev_device = opt_device opts,
            ev_non_variable = True, ev_grad = grad_mode s\<rparr>]\<rparr>)"
  by (simp add: AutoNonVariableTypeMode_def at_empty_def record_call_def)

lemma from_flat_eq:
  "from_flat S values s =
     (TensorDataContainer [length values] S Tensor Scalar_default []
        (Some \<lparr>t_sizes = [length values], t_dtype = None, t_device = CPU,
               t_data = map Some values\<rparr>),
      s\<lparr>calls := calls s @
          [\<lparr>ev_call = Call_tensor, ev_device = CPU,
            ev_non_variable = True, ev_grad = grad_mode s\<rparr>]\<rparr>)"
  by (simp add: from_flat_def AutoNonVariableTypeMode_def at_native_tensor_def record_call_def)

subsection \<open>The recursive fill\<close>

text \<open>
  The equations of \<open>fill_tensor\<close> by variant, with the guard and the backend call
  of the scalar case evaluated.
\<close>

lemma fill_tensor_Scalar:
  "fill_tensor (TensorDataContainer sz st Scalar sc il tn) tens s =
     (if t_sizes tens \<noteq> []
      then (Inl (InternalInvariant (Fill_expected_0dim (length (t_sizes tens)))), s)
      else (Inr (tens\<lparr>t_data := replicate (length (t_data tens)) (Some sc)\<rparr>),
            s\<lparr>calls := calls s @
                [\<lparr>ev_call = Call_fill, ev_device = t_device tens,
                  ev_non_variable = non_variable_type_mode s, ev_grad = False\<rparr>]\<rparr>))"
  by (simp add: NoGradGuard_fill)

lemma fill_tensor_InitList:
  "fill_tensor (TensorDataContainer sz st InitList sc il tn) tens s =
     (case t_sizes tens of
        [] \<Rightarrow> (Inl InvalidRead, s)
      | n # _ \<Rightarrow>
          if n \<noteq> length il
          then (Inl (InternalInvariant (Fill_first_dim (length il) n)), s)
          else fill_elems il 0 tens s)"
  by simp

lemma fill_tensor_Tensor:
  "fill_tensor (TensorDataContainer sz st Tensor sc il tn) tens s =
     (Inl (InternalInvariant Fill_on_tensor), s)"
  by simp

lemma fill_elems_Cons:
  "fill_elems (elem # rest) index tens s =
     (case select tens index of
        Inl e \<Rightarrow> (Inl e, record_call (Call_select index) (t_device tens) s)
      | Inr sub \<Rightarrow>
          (case fill_tensor elem sub (record_call (Call_select index) (t_device tens) s) of
             (Inl e, s2) \<Rightarrow> (Inl e, s2)
           | (Inr sub', s2) \<Rightarrow>
               fill_elems rest (Suc index) (tensor_put tens index sub') s2))"
  by (simp add: tensor_select_def split: sum.splits)

lemmas fill_simps = fill_tensor_Scalar fill_tensor_InitList fill_tensor_Tensor fill_elems_Cons

declare fill_tensor.simps [simp del] fill_elems.simps(2) [simp del]

text \<open>
  A fill leaves the sizes and the device of the tensor as they were.
\<close>

lemma fill_preserves:
  "fill_tensor c tens s = (Inr t', s') \<Longrightarrow>
     t_sizes t' = t_sizes tens \<and> t_device t' = t_device tens"
  "fill_elems il idx tens s = (Inr t', s') \<Longrightarrow>
     t_sizes t' = t_sizes tens \<and> t_device t' = t_device tens"
proof (induction c tens s and il idx tens s arbitrary: t' s' and t' s'
    rule: fill_tensor_fill_elems.induct)
  case (1 sz st ty sc il tn tens s)
  show ?case
  proof (cases ty)
    case Scalar
    with "1.prems" show ?thesis
      by (auto simp: fill_tensor_Scalar split: if_splits)
  next
    case InitList
    with "1.prems" obtain n rest where sz: "t_sizes tens = n # rest"
      and n: "\<not> n \<noteq> length il" and fe: "fill_elems il 0 tens s = (Inr t', s')"
      by (auto simp: fill_tensor_InitList split: list.splits if_splits)
    from InitList have ns: "ty \<noteq> Scalar" by simp
    from "1.IH" [OF ns InitList sz n fe] show ?thesis .
  next
    case Tensor
    with "1.prems" show ?thesis by (simp add: fill_tensor_Tensor)
  qed
next
  case (2 index tens s)
  then show ?case by simp
next
  case (3 elem rest index tens s)
  from "3.prems" obtain sub s1 sub' s2 where
    sel: "tensor_select tens index s = (Inr sub, s1)"
    and fl: "fill_tensor elem sub s1 = (Inr sub', s2)"
    and rest: "fill_elems rest (Suc index) (tensor_put tens index sub') s2 = (Inr t', s')"
    by (auto simp: fill_elems.simps(2) split: prod.splits sum.splits)
  from "3.IH"(2) [OF sel [symmetric] refl fl [symmetric] refl rest]
  show ?case by simp
qed

text \<open>
  The backend calls of a fill, whatever its outcome: indexings and in-place fills on the
  device of the tensor, each fill with gradient recording off; both modes are as before
  when it returns or throws.
\<close>

lemma fill_event_kinds:
  "fill_event d e \<Longrightarrow> \<not> is_to e \<and> \<not> is_factory e \<and> ev_device e = d \<and> (is_fill e \<longrightarrow> \<not> ev_grad e)"
  by (auto simp: fill_event_def is_to_def is_factory_def is_fill_def split: backend_call.splits)

lemma fill_log:
  "fill_tensor c tens s = (r, s') \<Longrightarrow>
     \<exists>evs. s' = s\<lparr>calls := calls s @ evs\<rparr> \<and> (\<forall>e \<in> set evs. fill_event (t_device tens) e)"
  "fill_elems il idx tens s = (r, s') \<Longrightarrow>
     \<exists>evs. s' = s\<lparr>calls := calls s @ evs\<rparr> \<and> (\<forall>e \<in> set evs. fill_event (t_device tens) e)"
proof (induction c tens s and il idx tens s arbitrary: r s' and r s'
    rule: fill_tensor_fill_elems.induct)
  case (1 sz st ty sc il tn tens s)
  show ?case
  proof (cases ty)
    case Scalar
    show ?thesis
    proof (cases "t_sizes tens \<noteq> []")
      case True
      with Scalar "1.prems" have "s' = s\<lparr>calls := calls s @ []\<rparr>"
        by (simp add: fill_tensor_Scalar)
      then show ?thesis by (intro exI [of _ "[]"]) simp
    next
      case False
      let ?ev = "\<lparr>ev_call = Call_fill, ev_device = t_device tens,
                  ev_non_variable = non_variable_type_mode s, ev_grad = False\<rparr>"
      from False Scalar "1.prems" have "s' = s\<lparr>calls := calls s @ [?ev]\<rparr>"
        by (simp add: fill_tensor_Scalar)
      then show ?thesis
        by (intro exI [of _ "[?ev]"]) (simp add: fill_event_def)
    qed
  next
    case InitList
    show ?thesis
    proof (cases "t_sizes tens")
      case Nil
      with InitList "1.prems" have "s' = s\<lparr>calls := calls s @ []\<rparr>"
        by (simp add: fill_tensor_InitList)
      then show ?thesis by (intro exI [of _ "[]"]) simp
    next
      case (Cons n rest)
      show ?thesis
      proof (cases "n \<noteq> length il")
        case True
        with Cons InitList "1.prems" have "s' = s\<lparr>calls := calls s @ []\<rparr>"
          by (simp add: fill_tensor_InitList)
        then show ?thesis by (intro exI [of _ "[]"]) simp
      next
        case False
        with Cons InitList "1.prems" have fe: "fill_elems il 0 tens s = (r, s')"
          by (simp add: fill_tensor_InitList)
        from InitList have ns: "ty \<noteq> Scalar" by simp
        from "1.IH" [OF ns InitList Cons False fe] show ?thesis .
      qed
    qed
  next
    case Tensor
    with "1.prems" have "s' = s\<lparr>calls := calls s @ []\<rparr>"
      by (simp add: fill_tensor_Tensor)
    then show ?thesis by (intro exI [of _ "[]"]) simp
  qed
next
  case (2 index tens s)
  then have "s' = s\<lparr>calls := calls s @ []\<rparr>" by simp
  then show ?case by (intro exI [of _ "[]"]) simp
next
  case (3 elem rest index tens s)
  let ?d = "t_device tens"
  let ?ev = "\<lparr>ev_call = Call_select index, ev_device = ?d,
              ev_non_variable = non_variable_type_mode s, ev_grad = grad_mode s\<rparr>"
  let ?s1 = "s\<lparr>calls := calls s @ [?ev]\<rparr>"
  have ev: "fill_event ?d ?ev" by (simp add: fill_event_def)
  have s1: "record_call (Call_select index) ?d s = ?s1" by (rule record_call_eq)
  show ?case
  proof (cases "select tens index")
    case (Inl e)
    with "3.prems" have "s' = ?s1"
      by (simp add: fill_elems_Cons s1)
    with ev show ?thesis by (intro exI [of _ "[?ev]"]) simp
  next
    case (Inr sub)
    then have sel: "tensor_select tens index s = (Inr sub, ?s1)"
      by (simp add: tensor_select_eq)
    from Inr have dsub: "t_device sub = ?d" by (simp add: select_Inr)
    obtain r1 s2 where fl: "fill_tensor elem sub ?s1 = (r1, s2)" by force
    from "3.IH"(1) [OF sel [symmetric] refl fl] dsub obtain evs1 where
      s2: "s2 = ?s1\<lparr>calls := calls ?s1 @ evs1\<rparr>" and evs1: "\<forall>e \<in> set evs1. fill_event ?d e"
      by auto
    show ?thesis
    proof (cases r1)
      case (Inl e)
      with "3.prems" Inr fl have "s' = s2"
        by (simp add: fill_elems_Cons s1)
      with s2 have "s' = s\<lparr>calls := calls s @ (?ev # evs1)\<rparr>" by simp
      with ev evs1 show ?thesis by (intro exI [of _ "?ev # evs1"]) simp
    next
      case (Inr sub')
      with "3.prems" \<open>select tens index = Inr sub\<close> fl
      have rest: "fill_elems rest (Suc index) (tensor_put tens index sub') s2 = (r, s')"
        by (simp add: fill_elems_Cons s1)
      from fl Inr have fl': "(Inr sub', s2) = fill_tensor elem sub ?s1" by simp
      from "3.IH"(2) [OF sel [symmetric] refl fl' refl rest] obtain evs2 where
        s': "s' = s2\<lparr>calls := calls s2 @ evs2\<rparr>" and evs2: "\<forall>e \<in> set evs2. fill_event ?d e"
        by auto
      from s' s2 have "s' = s\<lparr>calls := calls s @ (?ev # evs1 @ evs2)\<rparr>" by simp
      with ev evs1 evs2 show ?thesis
        by (intro exI [of _ "?ev # evs1 @ evs2"]) auto
    qed
  qed
qed

text \<open>
  On a well-formed container and a tensor of its shape, the fill succeeds when no flat
  tensor sits below a brace list, and otherwise stops at the assertion of the flat-tensor
  branch.
\<close>

lemma rectangular_InitList:
  "rectangular (TensorDataContainer sz st InitList sc il tn) \<longleftrightarrow>
     sz \<noteq> [] \<and> hd sz = length il \<and> (\<forall>e \<in> set il. rectangular e \<and> sizes e = tl sz)"
  by simp

lemma fill_result:
  "rectangular c \<Longrightarrow> t_sizes tens = sizes c \<Longrightarrow>
     (if fillable c then \<exists>t'. fst (fill_tensor c tens s) = Inr t'
      else fst (fill_tensor c tens s) = Inl (InternalInvariant Fill_on_tensor))"
  "\<forall>e \<in> set il. rectangular e \<and> sizes e = tl (t_sizes tens) \<Longrightarrow>
   t_sizes tens \<noteq> [] \<Longrightarrow> idx + length il \<le> hd (t_sizes tens) \<Longrightarrow>
     (if \<forall>e \<in> set il. fillable e then \<exists>t'. fst (fill_elems il idx tens s) = Inr t'
      else fst (fill_elems il idx tens s) = Inl (InternalInvariant Fill_on_tensor))"
proof (induction c tens s and il idx tens s rule: fill_tensor_fill_elems.induct)
  case (1 sz st ty sc il tn tens s)
  show ?case
  proof (cases ty)
    case Scalar
    with "1.prems" show ?thesis
      by (simp add: fill_tensor_Scalar sizes_def)
  next
    case InitList
    with "1.prems" have sz: "sz \<noteq> []" and hd: "hd sz = length il"
      and elems: "\<forall>e \<in> set il. rectangular e \<and> sizes e = tl (t_sizes tens)"
      and ts: "t_sizes tens = sz"
      by (simp_all add: sizes_def)
    from sz hd ts obtain rest where cons: "t_sizes tens = length il # rest"
      by (cases sz) auto
    have n: "\<not> length il \<noteq> length il" by simp
    from InitList have ns: "ty \<noteq> Scalar" by simp
    have ne: "t_sizes tens \<noteq> []" using cons by simp
    have le: "0 + length il \<le> hd (t_sizes tens)" using cons by simp
    from "1.IH" [OF ns InitList cons n elems ne le]
    show ?thesis using InitList cons
      by (simp add: fill_tensor_InitList)
  next
    case Tensor
    then show ?thesis by (simp add: fill_tensor_Tensor)
  qed
next
  case (2 index tens s)
  then show ?case by simp
next
  case (3 elem rest index tens s)
  let ?s1 = "record_call (Call_select index) (t_device tens) s"
  from "3.prems" have lt: "index < hd (t_sizes tens)" by simp
  with "3.prems"(2) obtain sub where sub: "select tens index = Inr sub"
    using select_ok by blast
  then have sel: "(Inr sub, ?s1) = tensor_select tens index s"
    by (simp add: tensor_select_def)
  from sub have ssub: "t_sizes sub = tl (t_sizes tens)" by (simp add: select_Inr)
  from "3.prems"(1) have re: "rectangular elem" and se: "t_sizes sub = sizes elem"
    using ssub by simp_all
  note head = "3.IH"(1) [OF sel refl re se]
  obtain r1 s2 where fl: "fill_tensor elem sub ?s1 = (r1, s2)" by force
  show ?case
  proof (cases "fillable elem")
    case False
    with head fl have "r1 = Inl (InternalInvariant Fill_on_tensor)" by simp
    with fl sub False show ?thesis
      by (simp add: fill_elems_Cons)
  next
    case True
    with head fl obtain sub' where r1: "r1 = Inr sub'" by auto
    with fl have fl': "(Inr sub', s2) = fill_tensor elem sub ?s1" by simp
    have elems: "\<forall>e \<in> set rest. rectangular e
                   \<and> sizes e = tl (t_sizes (tensor_put tens index sub'))"
      using "3.prems"(1) by simp
    have ne: "t_sizes (tensor_put tens index sub') \<noteq> []"
      using "3.prems"(2) by simp
    have le: "Suc index + length rest \<le> hd (t_sizes (tensor_put tens index sub'))"
      using "3.prems"(3) by simp
    from "3.IH"(2) [OF sel refl fl' refl elems ne le]
    show ?thesis using True sub fl r1
      by (simp add: fill_elems_Cons)
  qed
qed

subsection \<open>Materialisation by variant\<close>

lemma convert_Scalar:
  "is_scalar c \<Longrightarrow>
   convert_to_tensor c options s =
     (Inr \<lparr>t_sizes = [], t_dtype = opt_dtype options, t_device = opt_device options,
           t_data = [Some (m_scalar c)]\<rparr>,
      s\<lparr>calls := calls s @
          [\<lparr>ev_call = Call_scalar_tensor, ev_device = opt_device options,
            ev_non_variable = True, ev_grad = grad_mode s\<rparr>]\<rparr>)"
  by (simp add: convert_to_tensor_def AutoNonVariableTypeMode_def at_scalar_tensor_def
      record_call_def)

lemma convert_Tensor:
  "is_tensor c \<Longrightarrow>
   convert_to_tensor c options s =
     (case m_tensor c of
        None \<Rightarrow> (Inl BackendError, s)
      | Some t \<Rightarrow>
          (Inr (t\<lparr>t_device := opt_device options,
                  t_dtype := (case opt_dtype options of None \<Rightarrow> t_dtype t | Some k \<Rightarrow> Some k)\<rparr>),
           s\<lparr>calls := calls s @
               [\<lparr>ev_call = Call_to (opt_device options), ev_device = t_device t,
                 ev_non_variable = non_variable_type_mode s, ev_grad = grad_mode s\<rparr>]\<rparr>))"
  by (cases c) (simp add: convert_to_tensor_def is_tensor_def is_scalar_def is_init_list_def
      tensor_to_def record_call_def split: option.splits)

lemma convert_InitList:
  assumes il: "is_init_list c" and cv: "convert_to_tensor c options s = (r, s')"
  shows "\<exists>fevs.
           (\<forall>e \<in> set fevs. fill_event CPU e) \<and>
           (case r of
              Inl err \<Rightarrow>
                s' = s\<lparr>calls := calls s @
                        \<lparr>ev_call = Call_empty, ev_device = CPU,
                          ev_non_variable = True, ev_grad = grad_mode s\<rparr> # fevs\<rparr>
            | Inr t \<Rightarrow>
                t_sizes t = m_sizes c \<and> t_device t = opt_device options \<and>
                s' = s\<lparr>calls := calls s @
                        \<lparr>ev_call = Call_empty, ev_device = CPU,
                          ev_non_variable = True, ev_grad = grad_mode s\<rparr> # fevs @
                        [\<lparr>ev_call = Call_to (opt_device options), ev_device = CPU,
                          ev_non_variable = non_variable_type_mode s,
                          ev_grad = grad_mode s\<rparr>]\<rparr>)"
proof -
  let ?opts = "options\<lparr>opt_device := CPU, opt_is_variable := False\<rparr>"
  let ?t0 = "\<lparr>t_sizes = m_sizes c, t_dtype = opt_dtype ?opts, t_device = opt_device ?opts,
              t_data = replicate (prod_list (m_sizes c)) None\<rparr>"
  let ?ev0 = "\<lparr>ev_call = Call_empty, ev_device = CPU,
               ev_non_variable = True, ev_grad = grad_mode s\<rparr>"
  let ?s1 = "s\<lparr>calls := calls s @ [?ev0]\<rparr>"
  have e0: "AutoNonVariableTypeMode (at_empty (m_sizes c) ?opts) s = (?t0, ?s1)"
    by (simp add: empty_guarded)
  obtain r1 s2 where fl: "fill_tensor c ?t0 ?s1 = (r1, s2)" by force
  from fill_log(1) [OF fl] obtain fevs where
    s2: "s2 = ?s1\<lparr>calls := calls ?s1 @ fevs\<rparr>" and fevs: "\<forall>e \<in> set fevs. fill_event CPU e"
    by auto
  from il have ns: "\<not> is_scalar c" by (simp add: is_init_list_def is_scalar_def)
  show ?thesis
  proof (cases r1)
    case (Inl err)
    with cv il ns e0 fl have "r = Inl err" and "s' = s2"
      by (simp_all add: convert_to_tensor_def)
    with s2 fevs show ?thesis
      by (intro exI [of _ fevs]) simp
  next
    case (Inr filled)
    with fl have "t_sizes filled = m_sizes c" and d: "t_device filled = CPU"
      using fill_preserves(1) [of c ?t0 ?s1 filled s2] by simp_all
    moreover from cv il ns e0 fl Inr
    have "r = Inr (filled\<lparr>t_device := opt_device options\<rparr>)"
      and "s' = record_call (Call_to (opt_device options)) (t_device filled) s2"
      by (simp_all add: convert_to_tensor_def tensor_to_def)
    ultimately show ?thesis using s2 fevs
      by (intro exI [of _ fevs]) (simp add: record_call_eq)
  qed
qed

lemma convert_InitList_result:
  assumes "is_init_list c" and "rectangular c"
  shows "if \<forall>e \<in> set (m_init_list c). fillable e
         then \<exists>t. fst (convert_to_tensor c options s) = Inr t
         else fst (convert_to_tensor c options s) = Inl (InternalInvariant Fill_on_tensor)"
proof -
  let ?opts = "options\<lparr>opt_device := CPU, opt_is_variable := False\<rparr>"
  let ?t0 = "\<lparr>t_sizes = m_sizes c, t_dtype = opt_dtype ?opts, t_device = opt_device ?opts,
              t_data = replicate (prod_list (m_sizes c)) None\<rparr>"
  let ?s1 = "s\<lparr>calls := calls s @ [\<lparr>ev_call = Call_empty, ev_device = CPU,
               ev_non_variable = True, ev_grad = grad_mode s\<rparr>]\<rparr>"
  have e0: "AutoNonVariableTypeMode (at_empty (m_sizes c) ?opts) s = (?t0, ?s1)"
    by (simp add: empty_guarded)
  from assms(1) have ns: "\<not> is_scalar c" by (simp add: is_init_list_def is_scalar_def)
  have fa: "fillable c \<longleftrightarrow> (\<forall>e \<in> set (m_init_list c). fillable e)"
    using assms(1) by (cases c) (simp add: is_init_list_def)
  have ts: "t_sizes ?t0 = sizes c" by (simp add: sizes_def)
  obtain r1 s2 where fl: "fill_tensor c ?t0 ?s1 = (r1, s2)" by force
  have cv: "fst (convert_to_tensor c options s) =
              (case r1 of Inl e \<Rightarrow> Inl e | Inr filled \<Rightarrow> Inr (filled\<lparr>t_device := opt_device options\<rparr>))"
    using assms(1) ns e0 fl
    by (simp add: convert_to_tensor_def tensor_to_def split: sum.splits)
  show ?thesis
  proof (cases "fillable c")
    case True
    with fill_result(1) [OF assms(2) ts, of ?s1] fl obtain t' where "r1 = Inr t'" by auto
    with cv True fa show ?thesis by simp
  next
    case False
    with fill_result(1) [OF assms(2) ts, of ?s1] fl
    have "r1 = Inl (InternalInvariant Fill_on_tensor)" by simp
    with cv False fa show ?thesis by simp
  qed
qed

subsection \<open>The constructors build well-formed containers\<close>

lemma rectangular_from_scalar: "rectangular (from_scalar v)"
  by (simp add: from_scalar_def)

lemma rectangular_default: "rectangular TensorDataContainer_default"
  by (simp add: TensorDataContainer_default_def)

lemma rectangular_from_flat: "rectangular (fst (from_flat S values s))"
  by (simp add: from_flat_eq)

lemma rectangular_from_brace_list:
  assumes "from_brace_list children = Inr r" and "\<forall>c \<in> set children. rectangular c"
  shows "rectangular r"
proof (cases children)
  case Nil
  with assms(1) show ?thesis by (simp add: from_brace_list_def)
next
  case (Cons f rest)
  with assms(1) have none: "check_elems f children = None"
    and r: "r = TensorDataContainer (length children # sizes f) (scalar_type f)
                  InitList Scalar_default children None"
    by (simp_all add: from_brace_list_Cons split: option.splits)
  from none have "\<forall>c \<in> set children. sizes c = sizes f"
    by (simp add: check_elems_None_iff)
  with assms(2) r show ?thesis by simp
qed

subsection \<open>Rendering\<close>

lemma print_elems_rendered:
  "map (pretty_print_recursive fmt) il = map Inr outs \<Longrightarrow>
     print_elems fmt il = Inr (comma_separated outs)"
proof (induction il arbitrary: outs)
  case Nil
  then show ?case by simp
next
  case (Cons it rest)
  then obtain out outs' where outs: "outs = out # outs'"
    and out: "pretty_print_recursive fmt it = Inr out"
    and rest: "map (pretty_print_recursive fmt) rest = map Inr outs'"
    by (cases outs) auto
  from Cons.IH [OF rest] have pr: "print_elems fmt rest = Inr (comma_separated outs')" .
  show ?case
  proof (cases rest)
    case Nil
    with rest have "outs' = []" by simp
    with Nil outs out show ?thesis by simp
  next
    case (Cons it' rest')
    with rest obtain o' os' where "outs' = o' # os'" by (cases outs') auto
    with Cons outs out pr show ?thesis by simp
  qed
qed

lemma read_item_flat:
  assumes "t_sizes t = [length vs]" and "t_data t = map Some vs" and "i < length vs"
  shows "read_item t i = Inr (vs ! i)"
proof -
  have "take (Suc 0) (drop i (map Some vs)) = [Some (vs ! i)]"
    using assms(3) by (simp add: take_Suc_conv_app_nth drop_map take_map hd_drop_conv_nth
        take_Suc)
  with assms show ?thesis
    by (simp add: read_item_def select_def item_def)
qed

lemma print_tensor_items_flat:
  assumes "t_sizes t = [length vs]" and "t_data t = map Some vs"
    and "st = kBFloat16 \<or> dispatch_all_types_and2 st"
  shows "\<forall>i \<in> set idxs. i < length vs \<Longrightarrow>
           print_tensor_items fmt st t idxs = Inr (concat (map (\<lambda>i. fmt st (vs ! i)) idxs))"
proof (induction idxs)
  case Nil
  then show ?case by simp
next
  case (Cons i rest)
  then have "read_item t i = Inr (vs ! i)"
    using read_item_flat [OF assms(1,2)] by simp
  with assms(3) have "print_tensor_item fmt st t i = Inr (fmt st (vs ! i))"
    by (auto simp: print_tensor_item_def)
  with Cons show ?case by simp
qed

lemma dispatch_covers:
  "st = kBFloat16 \<or> dispatch_all_types_and2 st \<longleftrightarrow> st \<noteq> Undefined"
  by (cases st) (simp_all add: dispatch_all_types_and2_def)

section \<open>The claims\<close>

text \<open>
  Claim C1. For a non-empty sequence of children that all have the sizes and the scalar
  type of the first child, the brace-list constructor succeeds; the result is a brace
  list holding the children, its sizes are the number of children followed by the first
  child's sizes, and its scalar type is the first child's.
\<close>

theorem from_brace_list_uniform:
  assumes "children \<noteq> []"
    and "\<forall>c \<in> set children. sizes c = sizes (hd children) \<and> scalar_type c = scalar_type (hd children)"
  shows "\<exists>r. from_brace_list children = Inr r \<and> is_init_list r
           \<and> sizes r = length children # sizes (hd children)
           \<and> scalar_type r = scalar_type (hd children)
           \<and> init_list r = Inr children"
proof (cases children)
  case Nil
  with assms(1) show ?thesis by simp
next
  case (Cons first_elem rest)
  with assms(2) have "check_elems first_elem children = None"
    by (simp only: check_elems_None_iff list.sel)
  with Cons show ?thesis
    by (simp add: from_brace_list_Cons is_init_list_def sizes_def scalar_type_def init_list_def)
qed

theorem from_brace_list_uniform_witness:
  "[from_scalar (Scalar_int 1), from_scalar (Scalar_int 2)] \<noteq> []
   \<and> sizes (from_scalar (Scalar_int 1)) = sizes (from_scalar (Scalar_int 2))
   \<and> scalar_type (from_scalar (Scalar_int 1)) = scalar_type (from_scalar (Scalar_int 2))
   \<and> (\<exists>r. from_brace_list [from_scalar (Scalar_int 1), from_scalar (Scalar_int 2)] = Inr r
          \<and> is_init_list r \<and> sizes r = [2] \<and> scalar_type r = kInt
          \<and> init_list r = Inr [from_scalar (Scalar_int 1), from_scalar (Scalar_int 2)])"
  using from_brace_list_uniform [of "[from_scalar (Scalar_int 1), from_scalar (Scalar_int 2)]"]
  by (simp add: from_scalar_def sizes_def scalar_type_def numeral_2_eq_2)

text \<open>
  Claim C2, as amended. The claim asks for a shape error whenever some child's sizes
  differ and for a kind error whenever some child's scalar type differs; one call throws
  one error. The loop throws at the first child, in order, that differs from the first
  one: a shape error if that child's sizes differ (the sizes are checked first), a kind
  error if only its scalar type differs. The constructor succeeds exactly when no child
  differs in either.
\<close>

theorem from_brace_list_first_offender:
  assumes "children \<noteq> []"
  shows "((\<exists>r. from_brace_list children = Inr r) \<longleftrightarrow>
            (\<forall>c \<in> set children. sizes c = sizes (hd children)
                                \<and> scalar_type c = scalar_type (hd children)))
         \<and> (\<forall>pre c post.
               children = pre @ c # post
               \<and> (\<forall>p \<in> set pre. sizes p = sizes (hd children)
                                  \<and> scalar_type p = scalar_type (hd children))
               \<and> \<not> (sizes c = sizes (hd children) \<and> scalar_type c = scalar_type (hd children))
               \<longrightarrow> from_brace_list children =
                     Inl (if sizes c \<noteq> sizes (hd children)
                          then ShapeMismatch (sizes (hd children)) (sizes c)
                          else KindMismatch (scalar_type (hd children)) (scalar_type c)))"
proof (cases children)
  case Nil
  with assms show ?thesis by simp
next
  case (Cons f rest)
  have ok: "(\<exists>r. from_brace_list children = Inr r) \<longleftrightarrow>
            (\<forall>c \<in> set children. sizes c = sizes f \<and> scalar_type c = scalar_type f)"
    unfolding Cons from_brace_list_Cons check_elems_None_iff [symmetric]
    by (simp split: option.splits)
  have bad: "from_brace_list children =
               Inl (if sizes c \<noteq> sizes f then ShapeMismatch (sizes f) (sizes c)
                    else KindMismatch (scalar_type f) (scalar_type c))"
    if "children = pre @ c # post"
      and "\<forall>p \<in> set pre. sizes p = sizes f \<and> scalar_type p = scalar_type f"
      and "\<not> (sizes c = sizes f \<and> scalar_type c = scalar_type f)"
    for pre c post
  proof -
    have "check_elems f children =
            Some (if sizes c \<noteq> sizes f then ShapeMismatch (sizes f) (sizes c)
                  else KindMismatch (scalar_type f) (scalar_type c))"
      unfolding that(1) using that(2,3) by (rule check_elems_first_offender)
    then show ?thesis
      using Cons by (simp add: from_brace_list_Cons)
  qed
  from ok bad show ?thesis
    unfolding Cons list.sel by blast
qed

theorem from_brace_list_first_offender_witness:
  "[from_scalar (Scalar_int 1), from_scalar (Scalar_float 0)] \<noteq> []
   \<and> sizes (from_scalar (Scalar_float 0)) = sizes (from_scalar (Scalar_int 1))
   \<and> scalar_type (from_scalar (Scalar_float 0)) \<noteq> scalar_type (from_scalar (Scalar_int 1))
   \<and> from_brace_list [from_scalar (Scalar_int 1), from_scalar (Scalar_float 0)]
       = Inl (KindMismatch kInt kFloat)
   \<and> (\<nexists>r. from_brace_list [from_scalar (Scalar_int 1), from_scalar (Scalar_float 0)] = Inr r)"
proof -
  let ?a = "from_scalar (Scalar_int 1)" and ?b = "from_scalar (Scalar_float 0)"
  have ne: "[?a, ?b] \<noteq> []" by simp
  note first = from_brace_list_first_offender [OF ne]
  have pre: "\<forall>p \<in> set [?a]. sizes p = sizes (hd [?a, ?b]) \<and> scalar_type p = scalar_type (hd [?a, ?b])"
    by simp
  have off: "\<not> (sizes ?b = sizes (hd [?a, ?b]) \<and> scalar_type ?b = scalar_type (hd [?a, ?b]))"
    by (simp add: from_scalar_def scalar_type_def)
  have split: "[?a, ?b] = [?a] @ ?b # []" by simp
  from first split pre off
  have "from_brace_list [?a, ?b] =
          Inl (if sizes ?b \<noteq> sizes (hd [?a, ?b])
               then ShapeMismatch (sizes (hd [?a, ?b])) (sizes ?b)
               else KindMismatch (scalar_type (hd [?a, ?b])) (scalar_type ?b))"
    by blast
  then show ?thesis
    by (simp add: from_scalar_def scalar_type_def sizes_def)
qed

text \<open>
  The second child below differs from the first in its scalar type, and the constructor
  throws the shape error, not the kind error.
\<close>

theorem from_brace_list_both_mismatches_counterexample:
  "scalar_type (TensorDataContainer [1] kFloat InitList Scalar_default
                  [from_scalar (Scalar_float 0)] None)
     \<noteq> scalar_type (from_scalar (Scalar_int 1))
   \<and> from_brace_list
        [from_scalar (Scalar_int 1),
         TensorDataContainer [1] kFloat InitList Scalar_default
           [from_scalar (Scalar_float 0)] None]
       = Inl (ShapeMismatch [] [1])"
  by (simp add: from_brace_list_def from_scalar_def scalar_type_def sizes_def)

text \<open>
  Claim C3, as amended. The default constructor builds a brace list with sizes \<open>[0]\<close>,
  scalar type \<open>Undefined\<close> and no children. The brace-list constructor never returns
  that container: on a non-empty sequence the first size is at least one, and on an empty
  sequence it reads the first element past the end. (In C++ the empty literal \<^verbatim>\<open>{}\<close>
  selects the default constructor.)
\<close>

theorem default_container:
  "is_init_list TensorDataContainer_default
   \<and> sizes TensorDataContainer_default = [0]
   \<and> scalar_type TensorDataContainer_default = Undefined
   \<and> init_list TensorDataContainer_default = Inr []
   \<and> from_brace_list children \<noteq> Inr TensorDataContainer_default"
  by (cases children)
     (simp_all add: from_brace_list_Cons from_brace_list_def TensorDataContainer_default_def
        is_init_list_def sizes_def scalar_type_def init_list_def split: option.splits)

theorem from_brace_list_empty_counterexample:
  "from_brace_list [] = Inl InvalidRead"
  by (simp add: from_brace_list_def)

text \<open>
  Claim C4. For a well-formed container, any options and any backend state, a tensor
  returned by \<open>convert_to_tensor\<close> has the sizes of the container; and one is returned
  whenever the container is a flat tensor or has no flat tensor below a brace list.
\<close>

theorem materialize_shape:
  assumes "rectangular c"
  shows "(\<forall>t s'. convert_to_tensor c options s = (Inr t, s') \<longrightarrow> t_sizes t = sizes c)
         \<and> (is_tensor c \<or> fillable c \<longrightarrow>
              (\<exists>t s'. convert_to_tensor c options s = (Inr t, s') \<and> t_sizes t = sizes c))"
proof -
  obtain sz st ty sc il tn where c: "c = TensorDataContainer sz st ty sc il tn"
    by (cases c)
  show ?thesis
  proof (cases ty)
    case Scalar
    with c assms have "is_scalar c" and "sizes c = []"
      by (simp_all add: is_scalar_def sizes_def)
    then show ?thesis by (simp add: convert_Scalar)
  next
    case InitList
    with c have il: "is_init_list c" by (simp add: is_init_list_def)
    have part: "t_sizes t = sizes c" if "convert_to_tensor c options s = (Inr t, s')" for t s'
      using convert_InitList [OF il that] by (auto simp: sizes_def)
    have "\<exists>t s'. convert_to_tensor c options s = (Inr t, s')" if "fillable c"
    proof -
      from that c InitList have "\<forall>e \<in> set (m_init_list c). fillable e" by simp
      with convert_InitList_result [OF il assms, of options s]
      obtain t where "fst (convert_to_tensor c options s) = Inr t" by auto
      then show ?thesis by (cases "convert_to_tensor c options s") auto
    qed
    with part il show ?thesis
      by (auto simp: is_tensor_def is_init_list_def)
  next
    case Tensor
    with c assms obtain t where "is_tensor c" and "m_tensor c = Some t" and "t_sizes t = sizes c"
      by (auto simp: is_tensor_def sizes_def split: option.splits)
    then show ?thesis by (simp add: convert_Tensor)
  qed
qed

theorem materialize_shape_witness:
  "rectangular (TensorDataContainer [2] kInt InitList Scalar_default
                  [from_scalar (Scalar_int 1), from_scalar (Scalar_int 2)] None)
   \<and> fillable (TensorDataContainer [2] kInt InitList Scalar_default
                  [from_scalar (Scalar_int 1), from_scalar (Scalar_int 2)] None)
   \<and> (\<exists>t s'. convert_to_tensor
                 (TensorDataContainer [2] kInt InitList Scalar_default
                    [from_scalar (Scalar_int 1), from_scalar (Scalar_int 2)] None)
                 \<lparr>opt_device = CUDA 0, opt_dtype = Some kFloat, opt_is_variable = False\<rparr>
                 \<lparr>non_variable_type_mode = False, grad_mode = True, calls = []\<rparr>
               = (Inr t, s') \<and> t_sizes t = [2])"
proof -
  let ?c = "TensorDataContainer [2] kInt InitList Scalar_default
              [from_scalar (Scalar_int 1), from_scalar (Scalar_int 2)] None"
  have r: "rectangular ?c" by (simp add: from_scalar_def sizes_def)
  have f: "fillable ?c" by (simp add: from_scalar_def)
  have s: "sizes ?c = [2]" by (simp add: sizes_def)
  from materialize_shape [OF r] f s r show ?thesis by simp
qed

text \<open>
  Claim C5. For a brace list, any options (so also a target device other than the CPU)
  and any backend state, the calls \<open>convert_to_tensor\<close> adds to the record hold at most
  one device transfer, and exactly one when a tensor is returned; the transfer is the
  last call, so every in-place fill comes before it, and every fill is on a CPU tensor.
\<close>

theorem single_transfer:
  assumes "is_init_list c" and "convert_to_tensor c options s = (r, s')"
  shows "\<exists>evs. calls s' = calls s @ evs
           \<and> length (filter is_to evs) \<le> 1
           \<and> (\<forall>e \<in> set evs. is_fill e \<longrightarrow> ev_device e = CPU)
           \<and> (\<forall>e \<in> set (butlast evs). \<not> is_to e)
           \<and> ((\<exists>t. r = Inr t) \<longleftrightarrow> length (filter is_to evs) = 1)"
proof -
  let ?ev0 = "\<lparr>ev_call = Call_empty, ev_device = CPU,
               ev_non_variable = True, ev_grad = grad_mode s\<rparr>"
  let ?to = "\<lparr>ev_call = Call_to (opt_device options), ev_device = CPU,
              ev_non_variable = non_variable_type_mode s, ev_grad = grad_mode s\<rparr>"
  from convert_InitList [OF assms] obtain fevs where
    fevs: "\<forall>e \<in> set fevs. fill_event CPU e"
    and res: "case r of
                Inl err \<Rightarrow> s' = s\<lparr>calls := calls s @ ?ev0 # fevs\<rparr>
              | Inr t \<Rightarrow> t_sizes t = m_sizes c \<and> t_device t = opt_device options
                         \<and> s' = s\<lparr>calls := calls s @ ?ev0 # fevs @ [?to]\<rparr>"
    by blast
  have no_to: "filter is_to fevs = []"
    using fevs fill_event_kinds by (auto simp: filter_empty_conv)
  have ev0: "\<not> is_to ?ev0" "\<not> is_fill ?ev0" by (simp_all add: is_to_def is_fill_def)
  have to: "is_to ?to" "\<not> is_fill ?to" by (simp_all add: is_to_def is_fill_def)
  have fills: "\<forall>e \<in> set fevs. is_fill e \<longrightarrow> ev_device e = CPU"
    using fevs fill_event_kinds by blast
  have none: "\<forall>e \<in> set fevs. \<not> is_to e"
    using fevs fill_event_kinds by blast
  show ?thesis
  proof (cases r)
    case (Inl err)
    with res have "calls s' = calls s @ ?ev0 # fevs" by simp
    moreover have "\<forall>e \<in> set (butlast (?ev0 # fevs)). \<not> is_to e"
      using none ev0 by (auto dest: in_set_butlastD)
    ultimately show ?thesis using Inl no_to ev0 fills
      by (intro exI [of _ "?ev0 # fevs"]) simp
  next
    case (Inr t)
    with res have "calls s' = calls s @ ?ev0 # fevs @ [?to]" by simp
    moreover have "butlast (?ev0 # fevs @ [?to]) = ?ev0 # fevs"
      by (simp add: butlast_append)
    ultimately show ?thesis using Inr no_to ev0 to fills none
      by (intro exI [of _ "?ev0 # fevs @ [?to]"]) (simp del: butlast.simps)
  qed
qed

theorem single_transfer_witness:
  "is_init_list (TensorDataContainer [2] kInt InitList Scalar_default
                   [from_scalar (Scalar_int 1), from_scalar (Scalar_int 2)] None)
   \<and> opt_device \<lparr>opt_device = CUDA 0, opt_dtype = Some kFloat, opt_is_variable = False\<rparr> \<noteq> CPU
   \<and> (\<exists>t. fst (convert_to_tensor
                 (TensorDataContainer [2] kInt InitList Scalar_default
                    [from_scalar (Scalar_int 1), from_scalar (Scalar_int 2)] None)
                 \<lparr>opt_device = CUDA 0, opt_dtype = Some kFloat, opt_is_variable = False\<rparr>
                 \<lparr>non_variable_type_mode = False, grad_mode = True, calls = []\<rparr>) = Inr t)
   \<and> length (filter is_to (calls (snd (convert_to_tensor
                 (TensorDataContainer [2] kInt InitList Scalar_default
                    [from_scalar (Scalar_int 1), from_scalar (Scalar_int 2)] None)
                 \<lparr>opt_device = CUDA 0, opt_dtype = Some kFloat, opt_is_variable = False\<rparr>
                 \<lparr>non_variable_type_mode = False, grad_mode = True, calls = []\<rparr>)))) = 1"
proof -
  let ?c = "TensorDataContainer [2] kInt InitList Scalar_default
              [from_scalar (Scalar_int 1), from_scalar (Scalar_int 2)] None"
  let ?o = "\<lparr>opt_device = CUDA 0, opt_dtype = Some kFloat, opt_is_variable = False\<rparr>"
  let ?s = "\<lparr>non_variable_type_mode = False, grad_mode = True, calls = []\<rparr>"
  have il: "is_init_list ?c" by (simp add: is_init_list_def)
  obtain r s' where cv: "convert_to_tensor ?c ?o ?s = (r, s')" by force
  have ok: "\<exists>t. r = Inr t"
    using cv
    by (simp add: convert_to_tensor_def is_scalar_def is_init_list_def from_scalar_def
        empty_guarded fill_simps select_def tensor_put_def tensor_to_def record_call_def)
       auto
  from single_transfer [OF il cv] ok have "length (filter is_to (calls s')) = 1"
    by auto
  with il ok cv show ?thesis by simp
qed

text \<open>
  Claim C6, as amended. The tensors made by a factory call (\<^verbatim>\<open>at::native::tensor\<close> in the
  flat constructor, \<^verbatim>\<open>at::scalar_tensor\<close> and \<^verbatim>\<open>at::empty\<close> in
  \<open>convert_to_tensor\<close>) are made while the non-variable-type mode is on, and every
  in-place fill runs with gradient recording off. The device transfer runs outside both
  guards, under the modes of the caller. Both modes have their initial values after
  \<open>convert_to_tensor\<close> and after the flat constructor, also when \<open>convert_to_tensor\<close>
  throws.
\<close>

theorem guards_and_modes:
  "(\<exists>evs. snd (convert_to_tensor c options s) = s\<lparr>calls := calls s @ evs\<rparr>
          \<and> (\<forall>e \<in> set evs.
                (is_factory e \<longrightarrow> ev_non_variable e)
                \<and> (is_fill e \<longrightarrow> \<not> ev_grad e)
                \<and> (is_to e \<longrightarrow> ev_non_variable e = non_variable_type_mode s
                                  \<and> ev_grad e = grad_mode s)))
   \<and> (\<exists>e. snd (from_flat S values s) = s\<lparr>calls := calls s @ [e]\<rparr>
           \<and> is_factory e \<and> ev_non_variable e)"
proof
  show "\<exists>e. snd (from_flat S values s) = s\<lparr>calls := calls s @ [e]\<rparr>
           \<and> is_factory e \<and> ev_non_variable e"
    unfolding from_flat_eq snd_conv
    by (rule exI [of _ "\<lparr>ev_call = Call_tensor, ev_device = CPU,
                        ev_non_variable = True, ev_grad = grad_mode s\<rparr>"])
       (simp add: is_factory_def)
next
  let ?good = "\<lambda>e. (is_factory e \<longrightarrow> ev_non_variable e)
                \<and> (is_fill e \<longrightarrow> \<not> ev_grad e)
                \<and> (is_to e \<longrightarrow> ev_non_variable e = non_variable_type_mode s
                                  \<and> ev_grad e = grad_mode s)"
  obtain r s' where cv: "convert_to_tensor c options s = (r, s')" by force
  consider (sc) "is_scalar c" | (il) "is_init_list c" | (tn) "is_tensor c"
    by (cases "m_type c") (auto simp: is_scalar_def is_init_list_def is_tensor_def)
  then have "\<exists>evs. s' = s\<lparr>calls := calls s @ evs\<rparr> \<and> (\<forall>e \<in> set evs. ?good e)"
  proof cases
    case sc
    let ?ev = "\<lparr>ev_call = Call_scalar_tensor, ev_device = opt_device options,
                ev_non_variable = True, ev_grad = grad_mode s\<rparr>"
    from sc cv have "s' = s\<lparr>calls := calls s @ [?ev]\<rparr>"
      by (simp add: convert_Scalar)
    then show ?thesis
      by (intro exI [of _ "[?ev]"]) (simp add: is_fill_def is_to_def)
  next
    case il
    let ?ev0 = "\<lparr>ev_call = Call_empty, ev_device = CPU,
                 ev_non_variable = True, ev_grad = grad_mode s\<rparr>"
    let ?to = "\<lparr>ev_call = Call_to (opt_device options), ev_device = CPU,
                ev_non_variable = non_variable_type_mode s, ev_grad = grad_mode s\<rparr>"
    from convert_InitList [OF il cv] obtain fevs where
      fevs: "\<forall>e \<in> set fevs. fill_event CPU e"
      and res: "case r of
                  Inl err \<Rightarrow> s' = s\<lparr>calls := calls s @ ?ev0 # fevs\<rparr>
                | Inr t \<Rightarrow> t_sizes t = m_sizes c \<and> t_device t = opt_device options
                           \<and> s' = s\<lparr>calls := calls s @ ?ev0 # fevs @ [?to]\<rparr>"
      by blast
    have g0: "?good ?ev0" by (simp add: is_fill_def is_to_def)
    have gto: "?good ?to" by (simp add: is_fill_def is_factory_def)
    have gf: "\<forall>e \<in> set fevs. ?good e"
      using fevs fill_event_kinds by blast
    show ?thesis
    proof (cases r)
      case (Inl err)
      with res have "s' = s\<lparr>calls := calls s @ ?ev0 # fevs\<rparr>" by simp
      with g0 gf show ?thesis
        by (intro exI [of _ "?ev0 # fevs"]) auto
    next
      case (Inr t)
      with res have "s' = s\<lparr>calls := calls s @ ?ev0 # fevs @ [?to]\<rparr>" by simp
      with g0 gf gto show ?thesis
        by (intro exI [of _ "?ev0 # fevs @ [?to]"]) auto
    qed
  next
    case tn
    show ?thesis
    proof (cases "m_tensor c")
      case None
      with tn cv have "s' = s\<lparr>calls := calls s @ []\<rparr>"
        by (simp add: convert_Tensor)
      then show ?thesis by (intro exI [of _ "[]"]) simp
    next
      case (Some t)
      let ?to = "\<lparr>ev_call = Call_to (opt_device options), ev_device = t_device t,
                  ev_non_variable = non_variable_type_mode s, ev_grad = grad_mode s\<rparr>"
      from Some tn cv have "s' = s\<lparr>calls := calls s @ [?to]\<rparr>"
        by (simp add: convert_Tensor)
      then show ?thesis
        by (intro exI [of _ "[?to]"]) (simp add: is_fill_def is_factory_def)
    qed
  qed
  with cv show "\<exists>evs. snd (convert_to_tensor c options s) = s\<lparr>calls := calls s @ evs\<rparr>
                  \<and> (\<forall>e \<in> set evs. ?good e)"
    by simp
qed

theorem guards_and_modes_witness:
  "non_variable_type_mode (snd (convert_to_tensor
       (TensorDataContainer [1] kInt InitList Scalar_default [from_scalar (Scalar_int 7)] None)
       \<lparr>opt_device = CUDA 0, opt_dtype = Some kInt, opt_is_variable = False\<rparr>
       \<lparr>non_variable_type_mode = False, grad_mode = True, calls = []\<rparr>)) = False
   \<and> grad_mode (snd (convert_to_tensor
       (TensorDataContainer [1] kInt InitList Scalar_default [from_scalar (Scalar_int 7)] None)
       \<lparr>opt_device = CUDA 0, opt_dtype = Some kInt, opt_is_variable = False\<rparr>
       \<lparr>non_variable_type_mode = False, grad_mode = True, calls = []\<rparr>)) = True
   \<and> filter is_factory (calls (snd (convert_to_tensor
       (TensorDataContainer [1] kInt InitList Scalar_default [from_scalar (Scalar_int 7)] None)
       \<lparr>opt_device = CUDA 0, opt_dtype = Some kInt, opt_is_variable = False\<rparr>
       \<lparr>non_variable_type_mode = False, grad_mode = True, calls = []\<rparr>)))
     = [\<lparr>ev_call = Call_empty, ev_device = CPU, ev_non_variable = True, ev_grad = True\<rparr>]
   \<and> snd (from_flat kInt [Scalar_int 1, Scalar_int 2]
            \<lparr>non_variable_type_mode = False, grad_mode = True, calls = []\<rparr>)
     = \<lparr>non_variable_type_mode = False, grad_mode = True,
        calls = [\<lparr>ev_call = Call_tensor, ev_device = CPU,
                  ev_non_variable = True, ev_grad = True\<rparr>]\<rparr>"
  using guards_and_modes
    [of "TensorDataContainer [1] kInt InitList Scalar_default [from_scalar (Scalar_int 7)] None"
        "\<lparr>opt_device = CUDA 0, opt_dtype = Some kInt, opt_is_variable = False\<rparr>"
        "\<lparr>non_variable_type_mode = False, grad_mode = True, calls = []\<rparr>"
        kInt "[Scalar_int 1, Scalar_int 2]"]
  by (simp add: convert_to_tensor_def is_scalar_def is_init_list_def from_scalar_def
      empty_guarded fill_simps select_def tensor_put_def tensor_to_def record_call_def
      from_flat_eq is_factory_def)

text \<open>
  The calls of one materialisation of \<^verbatim>\<open>{7}\<close> for a CUDA device: the transfer is made
  with the non-variable-type mode off and gradient recording on.
\<close>

theorem transfer_outside_guard_counterexample:
  "calls (snd (convert_to_tensor
                 (TensorDataContainer [1] kInt InitList Scalar_default
                    [from_scalar (Scalar_int 7)] None)
                 \<lparr>opt_device = CUDA 0, opt_dtype = Some kInt, opt_is_variable = False\<rparr>
                 \<lparr>non_variable_type_mode = False, grad_mode = True, calls = []\<rparr>))
   = [\<lparr>ev_call = Call_empty, ev_device = CPU, ev_non_variable = True, ev_grad = True\<rparr>,
      \<lparr>ev_call = Call_select 0, ev_device = CPU, ev_non_variable = False, ev_grad = True\<rparr>,
      \<lparr>ev_call = Call_fill, ev_device = CPU, ev_non_variable = False, ev_grad = False\<rparr>,
      \<lparr>ev_call = Call_to (CUDA 0), ev_device = CPU, ev_non_variable = False, ev_grad = True\<rparr>]"
  by (simp add: convert_to_tensor_def is_scalar_def is_init_list_def from_scalar_def
      empty_guarded fill_simps select_def tensor_put_def tensor_to_def record_call_def)

text \<open>
  Claim C7. An accessor returns its member on the matching variant and throws the misuse
  error on any other; a container has exactly one variant. The accessors are \<^verbatim>\<open>const\<close>;
  here they are functions of the container and return nothing else.
\<close>

theorem accessor_discipline:
  "(is_scalar c \<longrightarrow> scalar c = Inr (m_scalar c))
   \<and> (\<not> is_scalar c \<longrightarrow> scalar c = Inl (Misuse Acc_scalar))
   \<and> (is_init_list c \<longrightarrow> init_list c = Inr (m_init_list c))
   \<and> (\<not> is_init_list c \<longrightarrow> init_list c = Inl (Misuse Acc_init_list))
   \<and> (is_tensor c \<longrightarrow> tensor c = Inr (m_tensor c))
   \<and> (\<not> is_tensor c \<longrightarrow> tensor c = Inl (Misuse Acc_tensor))
   \<and> (is_scalar c \<or> is_init_list c \<or> is_tensor c)
   \<and> \<not> (is_scalar c \<and> is_init_list c) \<and> \<not> (is_scalar c \<and> is_tensor c)
   \<and> \<not> (is_init_list c \<and> is_tensor c)"
  by (cases "m_type c")
     (simp_all add: scalar_def init_list_def tensor_def is_scalar_def is_init_list_def
        is_tensor_def)

theorem accessor_discipline_witness:
  "is_scalar (from_scalar (Scalar_int 7))
   \<and> scalar (from_scalar (Scalar_int 7)) = Inr (Scalar_int 7)
   \<and> init_list (from_scalar (Scalar_int 7)) = Inl (Misuse Acc_init_list)
   \<and> tensor (from_scalar (Scalar_int 7)) = Inl (Misuse Acc_tensor)"
  using accessor_discipline [of "from_scalar (Scalar_int 7)"]
  by (simp add: from_scalar_def is_scalar_def is_init_list_def is_tensor_def)

text \<open>
  Claim C8. The flat constructor builds a flat tensor of two values; the brace-list
  constructor accepts it as an only child; \<open>convert_to_tensor\<close> on the result fills the
  child and stops at the assertion \<^verbatim>\<open>`fill_tensor` should not be called\<close>.
\<close>

theorem fill_reaches_flat_tensor:
  "fst (from_flat kInt [Scalar_int 1, Scalar_int 2]
          \<lparr>non_variable_type_mode = False, grad_mode = True, calls = []\<rparr>)
     = TensorDataContainer [2] kInt Tensor Scalar_default []
         (Some \<lparr>t_sizes = [2], t_dtype = None, t_device = CPU,
                t_data = [Some (Scalar_int 1), Some (Scalar_int 2)]\<rparr>)
   \<and> from_brace_list
        [TensorDataContainer [2] kInt Tensor Scalar_default []
           (Some \<lparr>t_sizes = [2], t_dtype = None, t_device = CPU,
                  t_data = [Some (Scalar_int 1), Some (Scalar_int 2)]\<rparr>)]
     = Inr (TensorDataContainer [1, 2] kInt InitList Scalar_default
              [TensorDataContainer [2] kInt Tensor Scalar_default []
                 (Some \<lparr>t_sizes = [2], t_dtype = None, t_device = CPU,
                        t_data = [Some (Scalar_int 1), Some (Scalar_int 2)]\<rparr>)] None)
   \<and> fst (convert_to_tensor
            (TensorDataContainer [1, 2] kInt InitList Scalar_default
               [TensorDataContainer [2] kInt Tensor Scalar_default []
                  (Some \<lparr>t_sizes = [2], t_dtype = None, t_device = CPU,
                         t_data = [Some (Scalar_int 1), Some (Scalar_int 2)]\<rparr>)] None)
            \<lparr>opt_device = CPU, opt_dtype = Some kInt, opt_is_variable = False\<rparr>
            \<lparr>non_variable_type_mode = False, grad_mode = True, calls = []\<rparr>)
     = Inl (InternalInvariant Fill_on_tensor)"
  by (simp add: from_flat_eq from_brace_list_def sizes_def scalar_type_def numeral_2_eq_2
      convert_to_tensor_def is_scalar_def is_init_list_def
      empty_guarded fill_simps select_def record_call_def)

text \<open>
  Claim C9. A brace list whose children render to \<open>outs\<close> renders to an open brace,
  these renderings separated by a comma and a space, and a close brace. A flat tensor of
  the values \<open>vs\<close> renders to an open brace, the renderings of the values with nothing
  between them, and a close brace.
\<close>

theorem pretty_print_braces:
  "(is_init_list c \<and> map (pretty_print_recursive fmt) (m_init_list c) = map Inr outs
      \<longrightarrow> pretty_print_recursive fmt c = Inr (''{'' @ comma_separated outs @ ''}''))
   \<and> (is_tensor c \<and> m_tensor c = Some t \<and> t_sizes t = [length vs]
        \<and> t_data t = map Some vs \<and> m_scalar_type c \<noteq> Undefined
      \<longrightarrow> pretty_print_recursive fmt c
            = Inr (''{'' @ concat (map (fmt (m_scalar_type c)) vs) @ ''}''))"
proof (intro conjI impI)
  assume a: "is_init_list c \<and> map (pretty_print_recursive fmt) (m_init_list c) = map Inr outs"
  then have "print_elems fmt (m_init_list c) = Inr (comma_separated outs)"
    by (simp add: print_elems_rendered)
  with a show "pretty_print_recursive fmt c = Inr (''{'' @ comma_separated outs @ ''}'')"
    by (cases c) (simp add: is_init_list_def)
next
  assume a: "is_tensor c \<and> m_tensor c = Some t \<and> t_sizes t = [length vs]
        \<and> t_data t = map Some vs \<and> m_scalar_type c \<noteq> Undefined"
  then have d: "m_scalar_type c = kBFloat16 \<or> dispatch_all_types_and2 (m_scalar_type c)"
    by (simp add: dispatch_covers)
  from a have ts: "t_sizes t = [length vs]" and td: "t_data t = map Some vs" by simp_all
  have "print_tensor_items fmt (m_scalar_type c) t [0..<length vs]
          = Inr (concat (map (\<lambda>i. fmt (m_scalar_type c) (vs ! i)) [0..<length vs]))"
    using print_tensor_items_flat [OF ts td d] by simp
  moreover have "map (\<lambda>i. fmt (m_scalar_type c) (vs ! i)) [0..<length vs]
                   = map (fmt (m_scalar_type c)) vs"
    by (simp add: map_nth [symmetric] map_equality_iff)
  ultimately show "pretty_print_recursive fmt c
            = Inr (''{'' @ concat (map (fmt (m_scalar_type c)) vs) @ ''}'')"
    using a by (cases c) (simp add: is_tensor_def)
qed

theorem pretty_print_braces_witness:
  "pretty_print_recursive
     (\<lambda>st v. if v = Scalar_int 1 \<or> v = Scalar_bool True then ''1''
              else if v = Scalar_int 2 then ''2'' else ''0'')
     (TensorDataContainer [2] kInt InitList Scalar_default
        [from_scalar (Scalar_int 1), from_scalar (Scalar_int 2)] None)
     = Inr ''{1, 2}''
   \<and> pretty_print_recursive
     (\<lambda>st v. if v = Scalar_int 1 \<or> v = Scalar_bool True then ''1''
              else if v = Scalar_int 2 then ''2'' else ''0'')
     (fst (from_flat kBool [Scalar_bool True, Scalar_bool False, Scalar_bool True]
             \<lparr>non_variable_type_mode = False, grad_mode = True, calls = []\<rparr>))
     = Inr ''{101}''"
proof -
  let ?fmt = "\<lambda>(st :: ScalarType) v. if v = Scalar_int 1 \<or> v = Scalar_bool True then ''1''
              else if v = Scalar_int 2 then ''2'' else ''0''"
  let ?c1 = "TensorDataContainer [2] kInt InitList Scalar_default
        [from_scalar (Scalar_int 1), from_scalar (Scalar_int 2)] None"
  let ?vs = "[Scalar_bool True, Scalar_bool False, Scalar_bool True]"
  let ?t = "\<lparr>t_sizes = [length ?vs], t_dtype = None, t_device = CPU,
               t_data = map Some ?vs\<rparr>"
  let ?c2 = "TensorDataContainer [length ?vs] kBool Tensor Scalar_default [] (Some ?t)"
  have p1: "is_init_list ?c1 \<and>
            map (pretty_print_recursive ?fmt) (m_init_list ?c1) = map Inr [''1'', ''2'']"
    by (simp add: is_init_list_def from_scalar_def print_scalar_def dispatch_all_types_and2_def)
  have p2: "is_tensor ?c2 \<and> m_tensor ?c2 = Some ?t \<and> t_sizes ?t = [length ?vs]
        \<and> t_data ?t = map Some ?vs \<and> m_scalar_type ?c2 \<noteq> Undefined"
    by (simp add: is_tensor_def)
  have c2: "fst (from_flat kBool ?vs
             \<lparr>non_variable_type_mode = False, grad_mode = True, calls = []\<rparr>) = ?c2"
    by (simp add: from_flat_eq)
  from pretty_print_braces [of ?c1 ?fmt "[''1'', ''2'']"] p1
  have r1: "pretty_print_recursive ?fmt ?c1 = Inr ''{1, 2}''" by simp
  from pretty_print_braces [of ?c2 ?fmt _ ?t ?vs] p2
  have r2: "pretty_print_recursive ?fmt ?c2 = Inr ''{101}''" by simp
  from r1 r2 c2 show ?thesis by simp
qed

text \<open>
  Claim C10. The container built from a value \<open>v\<close> is a scalar, its accessor returns
  \<open>v\<close>, its scalar type is the kind of \<open>v\<close> and its sizes are empty.
\<close>

theorem scalar_round_trip:
  "is_scalar (from_scalar v) \<and> scalar (from_scalar v) = Inr v
   \<and> scalar_type (from_scalar v) = kind_of v \<and> sizes (from_scalar v) = []"
  by (simp add: from_scalar_def is_scalar_def scalar_def scalar_type_def sizes_def)

end
